theory Spec2Isabelle
  imports Main "HOL-Library.Sublist" "HOL-Library.Char_ord" "HOL-Library.List_Lexorder"
begin

section \<open>Python strings\<close>

text \<open>
  Strings are lists of 8-bit characters. The \<^verbatim>\<open>str\<close> methods the plugin calls are written
  for ASCII text, where they are exact: there only the letters \<^verbatim>\<open>A\<close> to \<^verbatim>\<open>Z\<close> and \<^verbatim>\<open>a\<close> to
  \<^verbatim>\<open>z\<close> have case, only \<^verbatim>\<open>0\<close> to \<^verbatim>\<open>9\<close> are digits, and the white space is what
  \<open>is_space\<close> lists. On other text Python follows the Unicode tables (\<^verbatim>\<open>U+00A0\<close> is white
  space, \<^verbatim>\<open>U+0663\<close> a digit, \<^verbatim>\<open>U+017F\<close> has the upper case \<^verbatim>\<open>S\<close>), which are not modelled:
  every theorem on a function that trims, splits at white space, tests for digits or
  changes case of a text has the premise that this text is ASCII, unless the function
  only compares the result with an ASCII constant that no other text reaches.
\<close>

text \<open>\<^verbatim>\<open>s.isascii()\<close>.\<close>

definition isascii :: "string \<Rightarrow> bool" where
  "isascii s = list_all (\<lambda>c. (of_char c :: nat) < 128) s"

definition lower_char :: "char \<Rightarrow> char" where
  "lower_char c =
     (let n = (of_char c :: nat) in if 65 \<le> n \<and> n \<le> 90 then char_of (n + 32) else c)"

definition upper_char :: "char \<Rightarrow> char" where
  "upper_char c =
     (let n = (of_char c :: nat) in if 97 \<le> n \<and> n \<le> 122 then char_of (n - 32) else c)"

text \<open>\<^verbatim>\<open>s.lower()\<close> and \<^verbatim>\<open>s.upper()\<close>.\<close>

definition lower :: "string \<Rightarrow> string" where
  "lower s = map lower_char s"

definition upper :: "string \<Rightarrow> string" where
  "upper s = map upper_char s"

text \<open>\<^verbatim>\<open>c.isspace()\<close>: tab, line feed, vertical tab, form feed, carriage return, the
  four separators 28 to 31, and the blank.\<close>

definition is_space :: "char \<Rightarrow> bool" where
  "is_space c = (let n = (of_char c :: nat) in (9 \<le> n \<and> n \<le> 13) \<or> (28 \<le> n \<and> n \<le> 32))"

text \<open>\<^verbatim>\<open>s.strip()\<close>.\<close>

definition strip :: "string \<Rightarrow> string" where
  "strip s = rev (dropWhile is_space (rev (dropWhile is_space s)))"

definition is_digit_char :: "char \<Rightarrow> bool" where
  "is_digit_char c = (let n = (of_char c :: nat) in 48 \<le> n \<and> n \<le> 57)"

text \<open>\<^verbatim>\<open>s.isdigit()\<close>: false on the empty string.\<close>

definition isdigit :: "string \<Rightarrow> bool" where
  "isdigit s = (s \<noteq> [] \<and> list_all is_digit_char s)"

text \<open>\<^verbatim>\<open>needle in hay\<close> on strings is \<^const>\<open>sublist\<close>: a contiguous occurrence.\<close>

text \<open>\<^verbatim>\<open>s.replace(old, new)\<close> for a non-empty \<open>old\<close>: occurrences are replaced from the
  left and do not overlap. (The plugin never passes an empty \<open>old\<close>; the model
  returns \<open>s\<close> there.)\<close>

function replace :: "string \<Rightarrow> string \<Rightarrow> string \<Rightarrow> string" where
  "replace old new s =
     (if old = [] \<or> s = [] then s
      else if prefix old s then new @ replace old new (drop (length old) s)
      else hd s # replace old new (tl s))"
  by pat_completeness auto
termination
  by (relation "measure (\<lambda>(old, new, s). length s)") auto

declare replace.simps [simp del]

text \<open>\<^verbatim>\<open>sep.join(xs)\<close>.\<close>

fun join :: "string \<Rightarrow> string list \<Rightarrow> string" where
  "join sep [] = []"
| "join sep [x] = x"
| "join sep (x # y # ys) = x @ sep @ join sep (y # ys)"

text \<open>Cutting a string at every character that satisfies \<open>sep\<close>; the empty string gives
  one empty piece.\<close>

fun split_where :: "(char \<Rightarrow> bool) \<Rightarrow> string \<Rightarrow> string list" where
  "split_where sep [] = [[]]"
| "split_where sep (c # cs) =
     (if sep c then [] # split_where sep cs
      else (case split_where sep cs of
              [] \<Rightarrow> [[c]]
            | piece # pieces \<Rightarrow> (c # piece) # pieces))"

text \<open>\<^verbatim>\<open>s.split(sep)\<close> for a one-character separator.\<close>

definition split_on :: "char \<Rightarrow> string \<Rightarrow> string list" where
  "split_on sep s = split_where (\<lambda>c. c = sep) s"

text \<open>\<^verbatim>\<open>s.split()\<close>: the maximal runs without white space.\<close>

definition split_ws :: "string \<Rightarrow> string list" where
  "split_ws s = filter (\<lambda>w. w \<noteq> []) (split_where is_space s)"

text \<open>\<^verbatim>\<open>x or ""\<close> on an optional string.\<close>

definition or_empty :: "string option \<Rightarrow> string" where
  "or_empty x = (case x of None \<Rightarrow> [] | Some s \<Rightarrow> s)"


section \<open>WMTS defaults (wmts\_utils.py)\<close>

text \<open>The inner loop \<^verbatim>\<open>for c in candidates: if c.lower() == pref: return c\<close>.\<close>

fun first_lower_eq :: "string \<Rightarrow> string list \<Rightarrow> string option" where
  "first_lower_eq pref [] = None"
| "first_lower_eq pref (c # cs) = (if lower c = pref then Some c else first_lower_eq pref cs)"

text \<open>The outer loop \<^verbatim>\<open>for pref in prefs: ...\<close> around it.\<close>

fun first_pref :: "string list \<Rightarrow> string list \<Rightarrow> string option" where
  "first_pref [] candidates = None"
| "first_pref (pref # prefs) candidates =
     (case first_lower_eq pref candidates of
        Some c \<Rightarrow> Some c
      | None \<Rightarrow> first_pref prefs candidates)"

text \<open>\<^verbatim>\<open>for c in candidates: if "png" in c.lower(): return c\<close>.\<close>

fun first_png_like :: "string list \<Rightarrow> string option" where
  "first_png_like [] = None"
| "first_png_like (c # cs) = (if sublist ''png'' (lower c) then Some c else first_png_like cs)"

text \<open>The candidates of \<^verbatim>\<open>_prefer_format\<close>: the non-empty entries, without the
  pseudo-token \<^verbatim>\<open>image/jpgpng\<close> unless nothing else is left.\<close>

definition format_candidates :: "string list \<Rightarrow> string list" where
  "format_candidates fmts =
     (let lower_pairs = map (\<lambda>f. (f, lower f)) (filter (\<lambda>f. f \<noteq> []) fmts);
          filtered = map fst (filter (\<lambda>(orig, low). low \<noteq> ''image/jpgpng'') lower_pairs)
      in if filtered \<noteq> [] then filtered else map fst lower_pairs)"

text \<open>The three preference loops and the final \<^verbatim>\<open>candidates[0] if candidates else None\<close>.\<close>

definition choose_format :: "string list \<Rightarrow> string option" where
  "choose_format candidates =
     (case first_pref [''image/png'', ''image/png8'', ''image/png32''] candidates of
        Some c \<Rightarrow> Some c
      | None \<Rightarrow>
         (case first_png_like candidates of
            Some c \<Rightarrow> Some c
          | None \<Rightarrow>
             (case first_pref [''image/jpeg'', ''image/jpg''] candidates of
                Some c \<Rightarrow> Some c
              | None \<Rightarrow> (case candidates of [] \<Rightarrow> None | c # _ \<Rightarrow> Some c))))"

text \<open>\<^verbatim>\<open>_prefer_format(fmts)\<close>; \<open>None\<close> is Python's \<^verbatim>\<open>None\<close>.\<close>

definition prefer_format :: "string list \<Rightarrow> string option" where
  "prefer_format fmts = (if fmts = [] then None else choose_format (format_candidates fmts))"


text \<open>An entry of a layer's \<^verbatim>\<open>matrix_sets\<close> list: the dictionary
  \<^verbatim>\<open>{"id": ms_id, "crs": crs}\<close>, where \<^verbatim>\<open>crs\<close> is \<^verbatim>\<open>None\<close> for a set the
  capabilities do not describe.\<close>

record matrix_set_link =
  ms_id :: string
  ms_crs :: "string option"

definition is_3857 :: "string option \<Rightarrow> bool" where
  "is_3857 crs =
     (let s = replace ''::'' '':'' (lower (or_empty crs))
      in sublist ''3857'' s \<or> sublist ''900913'' s \<or> sublist ''webmercator'' (replace '' '' [] s))"

definition is_4326 :: "string option \<Rightarrow> bool" where
  "is_4326 crs =
     (let s = lower (or_empty crs)
      in sublist ''4326'' s \<or> sublist ''wgs84'' (replace '' '' [] s))"

text \<open>\<^verbatim>\<open>for s in sets: if test(s.get("crs")): return s["id"]\<close>.\<close>

fun first_indicating :: "(string option \<Rightarrow> bool) \<Rightarrow> matrix_set_link list \<Rightarrow> string option" where
  "first_indicating test [] = None"
| "first_indicating test (s # sets) =
     (if test (ms_crs s) then Some (ms_id s) else first_indicating test sets)"

text \<open>\<^verbatim>\<open>_prefer_matrix_set(sets)\<close>.\<close>

definition prefer_matrix_set :: "matrix_set_link list \<Rightarrow> string option" where
  "prefer_matrix_set sets =
     (case sets of
        [] \<Rightarrow> None
      | s0 # _ \<Rightarrow>
         (case first_indicating is_3857 sets of
            Some i \<Rightarrow> Some i
          | None \<Rightarrow>
             (case first_indicating is_4326 sets of
                Some i \<Rightarrow> Some i
              | None \<Rightarrow> Some (ms_id s0))))"

text \<open>
  The default format as the specification words it, for comparison with
  \<^const>\<open>prefer_format\<close>: over the list without the pseudo-token \<^verbatim>\<open>image/jpgpng\<close> (which
  stays only when nothing else is left), an exact match of \<^verbatim>\<open>image/png\<close>,
  \<^verbatim>\<open>image/png8\<close> or \<^verbatim>\<open>image/png32\<close>; else the first format containing \<^verbatim>\<open>png\<close>; else
  an exact match of \<^verbatim>\<open>image/jpeg\<close> or \<^verbatim>\<open>image/jpg\<close>; else the first remaining format.
  Matches ignore case.
\<close>

definition spec_prefer_format :: "string list \<Rightarrow> string option" where
  "spec_prefer_format fmts =
     (let remaining = filter (\<lambda>f. lower f \<noteq> ''image/jpgpng'') fmts;
          cands = (if remaining = [] then fmts else remaining)
      in case find (\<lambda>c. lower c = ''image/png'') cands of Some c \<Rightarrow> Some c | None \<Rightarrow>
        (case find (\<lambda>c. lower c = ''image/png8'') cands of Some c \<Rightarrow> Some c | None \<Rightarrow>
        (case find (\<lambda>c. lower c = ''image/png32'') cands of Some c \<Rightarrow> Some c | None \<Rightarrow>
        (case find (\<lambda>c. sublist ''png'' (lower c)) cands of Some c \<Rightarrow> Some c | None \<Rightarrow>
        (case find (\<lambda>c. lower c = ''image/jpeg'') cands of Some c \<Rightarrow> Some c | None \<Rightarrow>
        (case find (\<lambda>c. lower c = ''image/jpg'') cands of Some c \<Rightarrow> Some c | None \<Rightarrow>
        (case cands of [] \<Rightarrow> None | c # _ \<Rightarrow> Some c)))))))"

section \<open>ArcGIS REST helpers (rest\_utils.py)\<close>


text \<open>\<^verbatim>\<open>_parse_supported_formats(fmt_str)\<close>.\<close>

definition parse_supported_formats :: "string option \<Rightarrow> string list" where
  "parse_supported_formats fmt_str =
     map (\<lambda>t. lower (strip t))
       (filter (\<lambda>t. strip t \<noteq> []) (split_on (CHR '','') (or_empty fmt_str)))"

text \<open>The first three lines of \<^verbatim>\<open>_prefer_arcgis_format\<close>: the token \<open>r\<close> they compute,
  when a non-empty format was requested.\<close>

definition requested_token :: "string option \<Rightarrow> string option" where
  "requested_token requested_fmt =
     (case requested_fmt of
        None \<Rightarrow> None
      | Some f \<Rightarrow> if f = [] then None else Some (lower (strip f)))"

definition arcgis_prefs :: "string list" where
  "arcgis_prefs = [''png32'', ''png24'', ''png8'', ''png'', ''jpg'', ''jpeg'']"

text \<open>\<^verbatim>\<open>for p in prefs: if p in available: return p\<close>.\<close>

fun first_available :: "string list \<Rightarrow> string list \<Rightarrow> string option" where
  "first_available [] available = None"
| "first_available (p # prefs) available =
     (if p \<in> set available then Some p else first_available prefs available)"

text \<open>\<^verbatim>\<open>_prefer_arcgis_format(requested_fmt, available)\<close>.\<close>

definition prefer_arcgis_format :: "string option \<Rightarrow> string list \<Rightarrow> string" where
  "prefer_arcgis_format requested_fmt available =
     (case (case requested_token requested_fmt of
              None \<Rightarrow> None
            | Some r \<Rightarrow> if r \<in> set available then Some r else None) of
        Some r \<Rightarrow> r
      | None \<Rightarrow>
         (case first_available arcgis_prefs available of
            Some p \<Rightarrow> p
          | None \<Rightarrow> (case available of [] \<Rightarrow> ''png32'' | a # _ \<Rightarrow> a)))"

text \<open>An entry of the service's \<^verbatim>\<open>layers\<close> array. The id is the integer the ArcGIS
  schema gives every layer (\<^verbatim>\<open>int(L.get("id"))\<close> is this integer); the name may be
  missing.\<close>

record rest_layer =
  lid :: int
  lname :: "string option"

text \<open>The service-info JSON, as far as the helpers read it.\<close>

record service_info =
  layers :: "rest_layer list option"
  supportedImageFormatTypes :: "string option"















section \<open>XML elements (xml.etree.ElementTree)\<close>

text \<open>
  A parsed element: its tag (\<^verbatim>\<open>{namespace}local\<close> for a namespaced one), its attributes,
  its text (\<^verbatim>\<open>None\<close> when there is none) and its child elements in document order.
\<close>

datatype xml = Element (tag: string) (attrib: "(string \<times> string) list")
  (text_of: "string option") (children: "xml list")


text \<open>
  The child selectors of ElementPath (Python 3.8 and later): the path \<^verbatim>\<open>{*}local\<close> selects
  the children named \<open>local\<close> in any namespace or in none, the path \<^verbatim>\<open>local\<close> those whose
  tag is exactly \<open>local\<close>.
\<close>

definition any_ns :: "string \<Rightarrow> xml \<Rightarrow> bool" where
  "any_ns local e = (tag e = local \<or> suffix (CHR ''}'' # local) (tag e))"

definition no_ns :: "string \<Rightarrow> xml \<Rightarrow> bool" where
  "no_ns local e = (tag e = local)"

section \<open>WMS capabilities (wms\_utils.py)\<close>

text \<open>\<^verbatim>\<open>_findall_any(elem, localname)\<close>, on the children of \<open>elem\<close>: the concatenation of
  the two \<^verbatim>\<open>findall\<close> results, so a child without namespace is listed twice.\<close>

definition findall_any :: "xml list \<Rightarrow> string \<Rightarrow> xml list" where
  "findall_any cs localname = filter (any_ns localname) cs @ filter (no_ns localname) cs"

text \<open>\<^verbatim>\<open>_first_any(elem, localname)\<close>, on the children of \<open>elem\<close>.\<close>

definition first_any :: "xml list \<Rightarrow> string \<Rightarrow> xml option" where
  "first_any cs localname =
     (case find (any_ns localname) cs of
        Some e \<Rightarrow> Some e
      | None \<Rightarrow> find (no_ns localname) cs)"

text \<open>\<^verbatim>\<open>normalize_crs_tokens(text)\<close>.\<close>

definition normalize_crs_tokens :: "string \<Rightarrow> string list" where
  "normalize_crs_tokens txt =
     (if txt = [] then []
      else map strip (filter (\<lambda>chunk. chunk \<noteq> []) (split_ws (replace '','' '' '' txt))))"

text \<open>The CRS/SRS entries an element declares, as \<^verbatim>\<open>walk_layers\<close> collects them into
  \<^verbatim>\<open>own_crs\<close>.\<close>

definition own_crs :: "xml \<Rightarrow> string list" where
  "own_crs elem =
     concat (map (\<lambda>e. normalize_crs_tokens (or_empty (text_of e))) (findall_any (children elem) ''CRS''))
     @ concat (map (\<lambda>e. normalize_crs_tokens (or_empty (text_of e))) (findall_any (children elem) ''SRS''))"

text \<open>The body of the loop \<^verbatim>\<open>for crs in combined_crs\<close>: the code appended for one token,
  if any.\<close>

definition normalize_crs :: "string \<Rightarrow> string option" where
  "normalize_crs crs =
     (if crs = [] then None
      else
        let cs = strip crs; up = upper cs in
        if prefix ''EPSG:'' up then Some up
        else if sublist ''EPSG'' up then
          (case find isdigit (rev (split_on (CHR '':'') (replace ''::'' '':'' cs))) of
             Some token \<Rightarrow> Some (''EPSG:'' @ token)
           | None \<Rightarrow> None)
        else None)"

fun normalized_crs :: "string list \<Rightarrow> string list" where
  "normalized_crs [] = []"
| "normalized_crs (crs # rest) =
     (case normalize_crs crs of
        None \<Rightarrow> normalized_crs rest
      | Some code \<Rightarrow> code # normalized_crs rest)"

text \<open>An entry of the returned list: the dictionary
  \<^verbatim>\<open>{"name": ..., "title": ..., "crs_list": [...]}\<close>.\<close>

record wms_layer =
  layer_name :: string
  layer_title :: string
  crs_list :: "string list"

text \<open>The entry \<^verbatim>\<open>walk_layers\<close> stores for an element with a non-empty name;
  \<^verbatim>\<open>sorted(set(xs))\<close> is \<open>sort (remdups xs)\<close>.\<close>

definition layer_entry :: "xml \<Rightarrow> string list \<Rightarrow> wms_layer list" where
  "layer_entry elem combined_crs =
     (case first_any (children elem) ''Name'' of
        None \<Rightarrow> []
      | Some name_el \<Rightarrow>
          if strip (or_empty (text_of name_el)) = [] then []
          else
            [\<lparr>layer_name = strip (or_empty (text_of name_el)),
              layer_title =
                (case first_any (children elem) ''Title'' of
                   None \<Rightarrow> strip (or_empty (text_of name_el))
                 | Some title_el \<Rightarrow>
                     if or_empty (text_of title_el) \<noteq> [] then strip (or_empty (text_of title_el))
                     else strip (or_empty (text_of name_el))),
              crs_list = sort (remdups (normalized_crs combined_crs))\<rparr>])"

text \<open>\<^verbatim>\<open>walk_layers(elem, inherited_crs)\<close>. The test \<^verbatim>\<open>child is elem\<close> never holds in
  a tree and is left out.\<close>

function walk_layers :: "xml \<Rightarrow> string list \<Rightarrow> wms_layer list" where
  "walk_layers elem inherited_crs =
     (let combined_crs = inherited_crs @ own_crs elem
      in layer_entry elem combined_crs
         @ concat (map (\<lambda>child. walk_layers child combined_crs) (findall_any (children elem) ''Layer'')))"
  by pat_completeness auto
termination
proof (relation "measure (\<lambda>(elem, inherited_crs). size elem)")
  show "wf (measure (\<lambda>(elem, inherited_crs). size elem))" by simp
next
  fix elem :: xml and inherited_crs combined_crs :: "string list" and child
  assume "child \<in> set (findall_any (children elem) ''Layer'')"
  then have "child \<in> set (children elem)"
    by (auto simp: findall_any_def)
  then have "size child < size elem"
    by (cases elem) (auto simp: less_Suc_eq_le dest: size_list_estimation')
  then show "((child, combined_crs), (elem, inherited_crs)) \<in> measure (\<lambda>(elem, inherited_crs). size elem)"
    by simp
qed

declare walk_layers.simps [simp del]

text \<open>The loop over the children, named for evaluation.\<close>

definition walk_children :: "xml list \<Rightarrow> string list \<Rightarrow> wms_layer list" where
  "walk_children cs combined_crs = concat (map (\<lambda>child. walk_layers child combined_crs) cs)"




section \<open>The WMS layer list as the specification describes it\<close>












section \<open>URLs (urllib.parse)\<close>

text \<open>
  The functions of Python's \<^verbatim>\<open>urllib.parse\<close> that the plugin calls, written after the
  library's source (CPython 3.11): \<^verbatim>\<open>urlsplit\<close>, \<^verbatim>\<open>urlunsplit\<close>, \<^verbatim>\<open>parse_qsl\<close> with
  \<^verbatim>\<open>keep_blank_values=True\<close> and \<^verbatim>\<open>urlencode\<close> on string keys and values. A string
  stands for its UTF-8 bytes. Two things the library does are not modelled: a percent
  escape that is not valid UTF-8 is decoded to the replacement character (here the bytes
  are kept), and some hosts are rejected with \<^verbatim>\<open>ValueError\<close>, namely a malformed IPv6
  literal in square brackets and non-ASCII characters that normalize to a delimiter
  (here \<^verbatim>\<open>urlsplit\<close> is total).
\<close>

record url_parts =
  scheme :: string
  netloc :: string
  path :: string
  query :: string
  fragment :: string

definition uses_netloc :: "string list" where
  "uses_netloc = [''ftp'', ''http'', ''gopher'', ''nntp'', ''telnet'', ''imap'', ''wais'', ''file'',
     ''mms'', ''https'', ''shttp'', ''snews'', ''prospero'', ''rtsp'', ''rtsps'', ''rtspu'', ''rsync'',
     ''svn'', ''svn+ssh'', ''sftp'', ''nfs'', ''git'', ''git+ssh'', ''ws'', ''wss'']"

text \<open>The characters \<^verbatim>\<open>urlsplit\<close> strips from the left (C0 controls and the blank) and
  those it removes everywhere (tab, line feed, carriage return).\<close>

definition c0_or_space :: "char \<Rightarrow> bool" where
  "c0_or_space c = ((of_char c :: nat) \<le> 32)"

definition unsafe_byte :: "char \<Rightarrow> bool" where
  "unsafe_byte c = ((of_char c :: nat) = 9 \<or> (of_char c :: nat) = 10 \<or> (of_char c :: nat) = 13)"

definition ascii_alpha :: "char \<Rightarrow> bool" where
  "ascii_alpha c = (let n = (of_char c :: nat) in (65 \<le> n \<and> n \<le> 90) \<or> (97 \<le> n \<and> n \<le> 122))"

definition scheme_char :: "char \<Rightarrow> bool" where
  "scheme_char c =
     (ascii_alpha c \<or> is_digit_char c \<or> c = CHR ''+'' \<or> c = CHR ''-'' \<or> c = CHR ''.'')"

text \<open>The scheme test of \<^verbatim>\<open>urlsplit\<close>: a colon at a position \<open>i > 0\<close>, a first character
  that is an ASCII letter, and only scheme characters before the colon.\<close>

definition has_scheme :: "string \<Rightarrow> bool" where
  "has_scheme url =
     (let pre = takeWhile (\<lambda>c. c \<noteq> CHR '':'') url; post = dropWhile (\<lambda>c. c \<noteq> CHR '':'') url
      in post \<noteq> [] \<and> pre \<noteq> [] \<and> ascii_alpha (hd pre) \<and> list_all scheme_char pre)"

definition split_scheme :: "string \<Rightarrow> string \<times> string" where
  "split_scheme url =
     (if has_scheme url
      then (lower (takeWhile (\<lambda>c. c \<noteq> CHR '':'') url), tl (dropWhile (\<lambda>c. c \<noteq> CHR '':'') url))
      else ([], url))"

definition netloc_delim :: "char \<Rightarrow> bool" where
  "netloc_delim c = (c = CHR ''/'' \<or> c = CHR ''?'' \<or> c = CHR ''#'')"

text \<open>\<^verbatim>\<open>_splitnetloc(url, 2)\<close> behind the test \<^verbatim>\<open>url[:2] == '//'\<close>.\<close>

definition split_netloc :: "string \<Rightarrow> string \<times> string" where
  "split_netloc url =
     (if prefix ''//'' url
      then (takeWhile (\<lambda>c. \<not> netloc_delim c) (drop 2 url),
            dropWhile (\<lambda>c. \<not> netloc_delim c) (drop 2 url))
      else ([], url))"

text \<open>\<^verbatim>\<open>s.split(c, 1)\<close> when \<open>c\<close> occurs in \<open>s\<close>, and \<open>(s, '')\<close> when it does not; also
  \<^verbatim>\<open>s.partition(c)\<close> without its middle component.\<close>

definition split_first :: "char \<Rightarrow> string \<Rightarrow> string \<times> string" where
  "split_first c s =
     (takeWhile (\<lambda>x. x \<noteq> c) s,
      case dropWhile (\<lambda>x. x \<noteq> c) s of [] \<Rightarrow> [] | _ # rest \<Rightarrow> rest)"

text \<open>The url after \<^verbatim>\<open>lstrip\<close> and the removal of tab, line feed and carriage return.\<close>

definition clean_bytes :: "string \<Rightarrow> string" where
  "clean_bytes url = filter (\<lambda>c. \<not> unsafe_byte c) (dropWhile c0_or_space url)"

definition split_parts :: "string \<Rightarrow> url_parts" where
  "split_parts url =
     (let (sch, rest1) = split_scheme url;
          (loc, rest2) = split_netloc rest1;
          (rest3, frag) = split_first (CHR ''#'') rest2;
          (pth, qry) = split_first (CHR ''?'') rest3
      in \<lparr>scheme = sch, netloc = loc, path = pth, query = qry, fragment = frag\<rparr>)"

definition urlsplit :: "string \<Rightarrow> url_parts" where
  "urlsplit url = split_parts (clean_bytes url)"

text \<open>\<^verbatim>\<open>urlunsplit\<close>. The first test says whether the url gets an authority part
  \<^verbatim>\<open>//netloc\<close>; a path that follows one starts with a slash.\<close>

definition has_authority :: "url_parts \<Rightarrow> bool" where
  "has_authority p =
     (netloc p \<noteq> [] \<or> (scheme p \<noteq> [] \<and> scheme p \<in> set uses_netloc) \<or> prefix ''//'' (path p))"

definition lead_slash :: "string \<Rightarrow> string" where
  "lead_slash url = (if url \<noteq> [] \<and> hd url \<noteq> CHR ''/'' then CHR ''/'' # url else url)"

definition urlunsplit :: "url_parts \<Rightarrow> string" where
  "urlunsplit p =
     (let url1 = (if has_authority p then ''//'' @ netloc p @ lead_slash (path p) else path p);
          url2 = (if scheme p \<noteq> [] then scheme p @ '':'' @ url1 else url1);
          url3 = (if query p \<noteq> [] then url2 @ ''?'' @ query p else url2)
      in if fragment p \<noteq> [] then url3 @ ''#'' @ fragment p else url3)"

text \<open>Percent encoding. \<^verbatim>\<open>quote_plus\<close> keeps letters, digits and \<^verbatim>\<open>_.-~\<close>, writes a blank
  as \<^verbatim>\<open>+\<close> and every other byte as \<^verbatim>\<open>%XX\<close> in upper-case hexadecimal.\<close>

definition always_safe :: "char \<Rightarrow> bool" where
  "always_safe c =
     (ascii_alpha c \<or> is_digit_char c \<or> c = CHR ''_'' \<or> c = CHR ''.'' \<or> c = CHR ''-'' \<or> c = CHR ''~'')"

definition hex_digit :: "nat \<Rightarrow> char" where
  "hex_digit d = (if d < 10 then char_of (48 + d) else char_of (55 + d))"

definition quote_char :: "char \<Rightarrow> string" where
  "quote_char c =
     (if c = CHR '' '' then ''+''
      else if always_safe c then [c]
      else [CHR ''%'', hex_digit ((of_char c :: nat) div 16), hex_digit ((of_char c :: nat) mod 16)])"

definition quote_plus :: "string \<Rightarrow> string" where
  "quote_plus s = concat (map quote_char s)"

text \<open>\<^verbatim>\<open>unquote\<close>: \<^verbatim>\<open>%XX\<close> with two hexadecimal digits of either case becomes the byte,
  any other \<^verbatim>\<open>%\<close> stays.\<close>

definition hex_value :: "char \<Rightarrow> nat option" where
  "hex_value c =
     (let n = (of_char c :: nat) in
      if 48 \<le> n \<and> n \<le> 57 then Some (n - 48)
      else if 65 \<le> n \<and> n \<le> 70 then Some (n - 55)
      else if 97 \<le> n \<and> n \<le> 102 then Some (n - 87)
      else None)"

definition hex_pair :: "char \<Rightarrow> char \<Rightarrow> char option" where
  "hex_pair h1 h2 =
     (case (hex_value h1, hex_value h2) of
        (Some a, Some b) \<Rightarrow> Some (char_of (16 * a + b))
      | _ \<Rightarrow> None)"

fun unquote :: "string \<Rightarrow> string" where
  "unquote [] = []"
| "unquote [c] = [c]"
| "unquote [c, d] = [c, d]"
| "unquote (c # h1 # h2 # rest) =
     (if c = CHR ''%'' then
        (case hex_pair h1 h2 of
           Some b \<Rightarrow> b # unquote rest
         | None \<Rightarrow> c # unquote (h1 # h2 # rest))
      else c # unquote (h1 # h2 # rest))"

definition unquote_plus :: "string \<Rightarrow> string" where
  "unquote_plus s = unquote (map (\<lambda>c. if c = CHR ''+'' then CHR '' '' else c) s)"

text \<open>\<^verbatim>\<open>parse_qsl(qs, keep_blank_values=True)\<close>: the pairs in the order of the query.\<close>

definition parse_qsl :: "string \<Rightarrow> (string \<times> string) list" where
  "parse_qsl qs =
     (if qs = [] then []
      else map (\<lambda>name_value.
                  (unquote_plus (fst (split_first (CHR ''='') name_value)),
                   unquote_plus (snd (split_first (CHR ''='') name_value))))
             (filter (\<lambda>name_value. name_value \<noteq> []) (split_on (CHR ''&'') qs)))"

text \<open>\<^verbatim>\<open>urlencode(q, doseq=True)\<close> on a dictionary of strings.\<close>

definition urlencode :: "(string \<times> string) list \<Rightarrow> string" where
  "urlencode q = join ''&'' (map (\<lambda>(k, v). quote_plus k @ ''='' @ quote_plus v) q)"

section \<open>Dictionaries\<close>

text \<open>A \<^verbatim>\<open>dict\<close> of strings keeps its keys in insertion order: a list of pairs with
  distinct keys. \<^verbatim>\<open>d[k] = v\<close> overwrites in place or appends; \<^verbatim>\<open>dict(pairs)\<close> sets the
  pairs one after the other; \<^verbatim>\<open>d.pop(k, None)\<close> removes the key.\<close>

definition dict_set :: "(string \<times> string) list \<Rightarrow> string \<Rightarrow> string \<Rightarrow> (string \<times> string) list" where
  "dict_set d k v =
     (if k \<in> set (map fst d) then map (\<lambda>(k', v'). if k' = k then (k', v) else (k', v')) d
      else d @ [(k, v)])"

definition dict_update :: "(string \<times> string) list \<Rightarrow> (string \<times> string) list \<Rightarrow> (string \<times> string) list" where
  "dict_update d pairs = foldl (\<lambda>d (k, v). dict_set d k v) d pairs"

definition dict_of :: "(string \<times> string) list \<Rightarrow> (string \<times> string) list" where
  "dict_of pairs = dict_update [] pairs"


section \<open>Service URLs (wms\_utils.py, wmts\_utils.py)\<close>






definition build_caps_url_wmts :: "string \<Rightarrow> string" where
  "build_caps_url_wmts base_url =
     (let parts = urlsplit (strip base_url);
          q = dict_update (dict_of (parse_qsl (query parts)))
                [(''SERVICE'', ''WMTS''), (''REQUEST'', ''GetCapabilities'')]
      in urlunsplit (parts\<lparr>query := urlencode q\<rparr>))"


section \<open>Well-formed url parts\<close>








section \<open>Loading the WMS layer list (wms\_utils.py, net\_utils.py)\<close>
















section \<open>Adding a WMTS layer (wmts\_utils.py)\<close>

text \<open>The list \<^verbatim>\<open>common_params\<close> of \<^verbatim>\<open>add_wmts_layer\<close>; the CRS entry is inserted at index 1
  when an authority id was found.\<close>

definition common_params :: "string \<Rightarrow> string \<Rightarrow> string \<Rightarrow> string \<Rightarrow> string option \<Rightarrow> string list" where
  "common_params layer_id chosen_style chosen_fmt chosen_ms crs_authid =
     (let tail_params = [''layers='' @ layer_id, ''styles='' @ chosen_style,
                         ''format='' @ chosen_fmt, ''tileMatrixSet='' @ chosen_ms]
      in if or_empty crs_authid \<noteq> []
         then ''contextualWMSLegend=0'' # (''crs='' @ or_empty crs_authid) # tail_params
         else ''contextualWMSLegend=0'' # tail_params)"






section \<open>Properties of the WMTS format default\<close>

lemma first_lower_eq_mem: "first_lower_eq p cs = Some c \<Longrightarrow> c \<in> set cs"
  by (induction cs) (auto split: if_splits)

lemma first_pref_mem: "first_pref ps cs = Some c \<Longrightarrow> c \<in> set cs"
  by (induction ps) (auto split: option.splits dest: first_lower_eq_mem)

lemma first_png_like_mem: "first_png_like cs = Some c \<Longrightarrow> c \<in> set cs"
  by (induction cs) (auto split: if_splits)

lemma choose_format_mem: "choose_format cs = Some c \<Longrightarrow> c \<in> set cs"
  unfolding choose_format_def
  by (auto split: option.splits list.splits dest: first_lower_eq_mem first_png_like_mem)

lemma choose_format_None_iff: "choose_format cs = None \<longleftrightarrow> cs = []"
  unfolding choose_format_def
  by (cases cs) (auto split: option.splits)

lemma format_candidates_subset: "set (format_candidates fmts) \<subseteq> {f \<in> set fmts. f \<noteq> []}"
  unfolding format_candidates_def Let_def by auto

lemma format_candidates_Nil_iff:
  "format_candidates fmts = [] \<longleftrightarrow> list_all (\<lambda>f. f = []) fmts"
  unfolding format_candidates_def Let_def
  by (auto simp: filter_empty_conv list_all_iff)

lemma prefer_format_None_iff:
  "prefer_format fmts = None \<longleftrightarrow> list_all (\<lambda>f. f = []) fmts"
  by (simp add: prefer_format_def choose_format_None_iff format_candidates_Nil_iff)

text \<open>
  C10. When the format list holds at least one non-empty string, \<^verbatim>\<open>_prefer_format\<close>
  returns an element of the list; it returns \<^verbatim>\<open>None\<close> exactly when the list is empty or
  all its elements are empty strings.
\<close>

theorem C10_prefer_format_member:
  "(list_ex (\<lambda>f. f \<noteq> []) fmts \<longrightarrow> (\<exists>c. prefer_format fmts = Some c \<and> c \<in> set fmts))
   \<and> (prefer_format fmts = None \<longleftrightarrow> (fmts = [] \<or> list_all (\<lambda>f. f = []) fmts))"
proof (intro conjI impI)
  assume ex: "list_ex (\<lambda>f. f \<noteq> []) fmts"
  then have "\<not> list_all (\<lambda>f. f = []) fmts"
    by (auto simp: list_ex_iff list_all_iff)
  then have "prefer_format fmts \<noteq> None"
    by (simp add: prefer_format_None_iff)
  then obtain c where c: "prefer_format fmts = Some c" by auto
  then have "choose_format (format_candidates fmts) = Some c"
    by (simp add: prefer_format_def split: if_splits)
  then have "c \<in> set (format_candidates fmts)" by (rule choose_format_mem)
  with format_candidates_subset have "c \<in> set fmts" by blast
  with c show "\<exists>c. prefer_format fmts = Some c \<and> c \<in> set fmts" by blast
next
  show "prefer_format fmts = None \<longleftrightarrow> (fmts = [] \<or> list_all (\<lambda>f. f = []) fmts)"
    by (auto simp: prefer_format_None_iff)
qed

theorem C10_prefer_format_member_witness:
  "list_ex (\<lambda>f. f \<noteq> []) [''image/jpgpng'', '''', ''image/gif'']
   \<and> prefer_format [''image/jpgpng'', '''', ''image/gif''] = Some ''image/gif''
   \<and> ''image/gif'' \<in> set [''image/jpgpng'', '''', ''image/gif'']
   \<and> prefer_format ['''', ''''] = None"
proof -
  have a: "list_ex (\<lambda>f. f \<noteq> []) [''image/jpgpng'', '''', ''image/gif'']" by simp
  have b: "prefer_format [''image/jpgpng'', '''', ''image/gif''] = Some ''image/gif''"
    by code_simp
  have c: "prefer_format ['''', ''''] = None"
    using C10_prefer_format_member [of "['''', '''']"] by simp
  from a b c show ?thesis by simp
qed


lemma first_lower_eq_find: "first_lower_eq p cs = find (\<lambda>c. lower c = p) cs"
  by (induction cs) auto

lemma first_png_like_find: "first_png_like cs = find (\<lambda>c. sublist ''png'' (lower c)) cs"
  by (induction cs) auto

lemma format_candidates_alt:
  "format_candidates fmts =
     (let ne = filter (\<lambda>f. f \<noteq> []) fmts;
          remaining = filter (\<lambda>f. lower f \<noteq> ''image/jpgpng'') ne
      in if remaining = [] then ne else remaining)"
proof -
  have a: "map fst (filter (\<lambda>(orig, low). low \<noteq> ''image/jpgpng'') (map (\<lambda>f. (f, lower f)) xs))
           = filter (\<lambda>f. lower f \<noteq> ''image/jpgpng'') xs" for xs
    by (induction xs) auto
  have b: "map fst (map (\<lambda>f. (f, lower f)) xs) = xs" for xs :: "string list"
    by (induction xs) auto
  show ?thesis
    unfolding format_candidates_def Let_def a b by simp
qed

lemma choose_format_find:
  "choose_format cands =
     (case find (\<lambda>c. lower c = ''image/png'') cands of Some c \<Rightarrow> Some c | None \<Rightarrow>
     (case find (\<lambda>c. lower c = ''image/png8'') cands of Some c \<Rightarrow> Some c | None \<Rightarrow>
     (case find (\<lambda>c. lower c = ''image/png32'') cands of Some c \<Rightarrow> Some c | None \<Rightarrow>
     (case find (\<lambda>c. sublist ''png'' (lower c)) cands of Some c \<Rightarrow> Some c | None \<Rightarrow>
     (case find (\<lambda>c. lower c = ''image/jpeg'') cands of Some c \<Rightarrow> Some c | None \<Rightarrow>
     (case find (\<lambda>c. lower c = ''image/jpg'') cands of Some c \<Rightarrow> Some c | None \<Rightarrow>
     (case cands of [] \<Rightarrow> None | c # _ \<Rightarrow> Some c)))))))"
  unfolding choose_format_def
  by (simp add: first_lower_eq_find first_png_like_find split: option.splits)

lemma prefer_format_spec:
  "prefer_format fmts = spec_prefer_format (filter (\<lambda>f. f \<noteq> []) fmts)"
proof (cases "fmts = []")
  case True
  then show ?thesis by (simp add: prefer_format_def spec_prefer_format_def)
next
  case False
  then have "prefer_format fmts = choose_format (format_candidates fmts)"
    by (simp add: prefer_format_def)
  also have "\<dots> = spec_prefer_format (filter (\<lambda>f. f \<noteq> []) fmts)"
    unfolding choose_format_find format_candidates_alt spec_prefer_format_def Let_def ..
  finally show ?thesis .
qed

text \<open>
  C4: on the format list of a layer, which holds no empty string (\<^verbatim>\<open>_parse_layers\<close> keeps
  \<^verbatim>\<open>[f for f in fmts if f]\<close> before either call), \<^verbatim>\<open>_prefer_format\<close> chooses as the
  specification says: over the entries that are not the pseudo-token \<^verbatim>\<open>image/jpgpng\<close>
  (over all entries when nothing else is left, which is the only way the pseudo-token is
  chosen), an exact match of \<^verbatim>\<open>image/png\<close>, \<^verbatim>\<open>image/png8\<close> or \<^verbatim>\<open>image/png32\<close>, else the
  first entry containing \<^verbatim>\<open>png\<close>, else an exact match of \<^verbatim>\<open>image/jpeg\<close> or \<^verbatim>\<open>image/jpg\<close>,
  else the first remaining entry.
\<close>

theorem C4_prefer_format_order:
  assumes "\<forall>f \<in> set fmts. f \<noteq> []"
  shows "prefer_format fmts = spec_prefer_format fmts"
proof -
  from assms have "filter (\<lambda>f. f \<noteq> []) fmts = fmts" by (simp add: filter_id_conv)
  with prefer_format_spec [of fmts] show ?thesis by simp
qed

theorem C4_prefer_format_order_witness:
  "prefer_format [''image/jpgpng'', ''image/jpeg'', ''image/PNG8'', ''image/png32''] = Some ''image/PNG8''
   \<and> prefer_format [''image/jpgpng''] = Some ''image/jpgpng''
   \<and> prefer_format [''image/jpgpng'', ''image/gif''] = Some ''image/gif''"
proof -
  have a: "spec_prefer_format [''image/jpgpng'', ''image/jpeg'', ''image/PNG8'', ''image/png32'']
           = Some ''image/PNG8''"
    by code_simp
  have b: "spec_prefer_format [''image/jpgpng''] = Some ''image/jpgpng''"
    by code_simp
  have c: "spec_prefer_format [''image/jpgpng'', ''image/gif''] = Some ''image/gif''"
    by code_simp
  have a': "prefer_format [''image/jpgpng'', ''image/jpeg'', ''image/PNG8'', ''image/png32'']
            = spec_prefer_format [''image/jpgpng'', ''image/jpeg'', ''image/PNG8'', ''image/png32'']"
    by (rule C4_prefer_format_order) simp
  have b': "prefer_format [''image/jpgpng''] = spec_prefer_format [''image/jpgpng'']"
    by (rule C4_prefer_format_order) simp
  have c': "prefer_format [''image/jpgpng'', ''image/gif'']
            = spec_prefer_format [''image/jpgpng'', ''image/gif'']"
    by (rule C4_prefer_format_order) simp
  from a b c a' b' c' show ?thesis by (simp only: simp_thms)
qed

section \<open>Properties of the WMTS matrix-set default\<close>

lemma first_indicating_first:
  "i < length sets \<Longrightarrow> test (ms_crs (sets ! i)) \<Longrightarrow> (\<forall>j<i. \<not> test (ms_crs (sets ! j)))
   \<Longrightarrow> first_indicating test sets = Some (ms_id (sets ! i))"
proof (induction sets arbitrary: i)
  case Nil
  then show ?case by simp
next
  case (Cons s sets)
  show ?case
  proof (cases i)
    case 0
    with Cons.prems show ?thesis by simp
  next
    case (Suc k)
    with Cons.prems have "\<not> test (ms_crs s)" by auto
    moreover from Suc Cons.prems have "first_indicating test sets = Some (ms_id (sets ! k))"
      by (intro Cons.IH) auto
    ultimately show ?thesis using Suc by simp
  qed
qed

lemma first_indicating_none:
  "(\<forall>s\<in>set sets. \<not> test (ms_crs s)) \<Longrightarrow> first_indicating test sets = None"
  by (induction sets) auto

lemma prefer_matrix_set_nonempty:
  assumes "sets \<noteq> []"
  shows "prefer_matrix_set sets =
     (case first_indicating is_3857 sets of
        Some i \<Rightarrow> Some i
      | None \<Rightarrow>
         (case first_indicating is_4326 sets of
            Some i \<Rightarrow> Some i
          | None \<Rightarrow> Some (ms_id (hd sets))))"
proof -
  from assms obtain s0 rest where eq: "sets = s0 # rest" by (cases sets) auto
  show ?thesis
    unfolding prefer_matrix_set_def eq
    by (simp del: first_indicating.simps split: option.splits)
qed

text \<open>
  C3. \<^verbatim>\<open>_prefer_matrix_set\<close> returns \<^verbatim>\<open>None\<close> exactly for the empty list. Otherwise it
  returns the id of the first set (lowest index) whose CRS indicates EPSG:3857, whatever
  stands before it; when no set indicates EPSG:3857, the id of the first set whose CRS
  indicates EPSG:4326; when no set indicates either, the id of the first set of the list.
  ``Indicates'' is the code's test: \<^const>\<open>is_3857\<close> looks for \<open>3857\<close>, \<open>900913\<close> or
  \<open>web mercator\<close> (case and blanks ignored), \<^const>\<open>is_4326\<close> for \<open>4326\<close> or \<open>wgs84\<close>.
\<close>

theorem C3_prefer_matrix_set:
  "(prefer_matrix_set sets = None \<longleftrightarrow> sets = [])
   \<and> (\<forall>i<length sets. is_3857 (ms_crs (sets ! i)) \<and> (\<forall>j<i. \<not> is_3857 (ms_crs (sets ! j)))
         \<longrightarrow> prefer_matrix_set sets = Some (ms_id (sets ! i)))
   \<and> ((\<forall>s\<in>set sets. \<not> is_3857 (ms_crs s)) \<longrightarrow>
        (\<forall>i<length sets. is_4326 (ms_crs (sets ! i)) \<and> (\<forall>j<i. \<not> is_4326 (ms_crs (sets ! j)))
           \<longrightarrow> prefer_matrix_set sets = Some (ms_id (sets ! i))))
   \<and> ((\<forall>s\<in>set sets. \<not> is_3857 (ms_crs s) \<and> \<not> is_4326 (ms_crs s)) \<longrightarrow>
        (\<forall>s0 rest. sets = s0 # rest \<longrightarrow> prefer_matrix_set sets = Some (ms_id s0)))"
proof (intro conjI allI impI)
  show "prefer_matrix_set sets = None \<longleftrightarrow> sets = []"
    by (auto simp: prefer_matrix_set_def split: list.splits option.splits)
next
  fix i
  assume "i < length sets"
    and "is_3857 (ms_crs (sets ! i)) \<and> (\<forall>j<i. \<not> is_3857 (ms_crs (sets ! j)))"
  then have "first_indicating is_3857 sets = Some (ms_id (sets ! i))" and "sets \<noteq> []"
    by (auto intro: first_indicating_first)
  then show "prefer_matrix_set sets = Some (ms_id (sets ! i))"
    by (simp add: prefer_matrix_set_nonempty)
next
  fix i
  assume no: "\<forall>s\<in>set sets. \<not> is_3857 (ms_crs s)"
    and "i < length sets"
    and "is_4326 (ms_crs (sets ! i)) \<and> (\<forall>j<i. \<not> is_4326 (ms_crs (sets ! j)))"
  then have "first_indicating is_4326 sets = Some (ms_id (sets ! i))" and "sets \<noteq> []"
    by (auto intro: first_indicating_first)
  moreover from no have "first_indicating is_3857 sets = None"
    by (rule first_indicating_none)
  ultimately show "prefer_matrix_set sets = Some (ms_id (sets ! i))"
    by (simp add: prefer_matrix_set_nonempty)
next
  fix s0 rest
  assume no: "\<forall>s\<in>set sets. \<not> is_3857 (ms_crs s) \<and> \<not> is_4326 (ms_crs s)"
    and eq: "sets = s0 # rest"
  from no have "first_indicating is_3857 sets = None" "first_indicating is_4326 sets = None"
    by (auto intro: first_indicating_none)
  with eq show "prefer_matrix_set sets = Some (ms_id s0)"
    by (simp add: prefer_matrix_set_nonempty)
qed

lemma is_3857_examples:
  "is_3857 (Some ''EPSG:3857'')" "is_3857 (Some ''urn:ogc:def:crs:EPSG::900913'')"
  "is_3857 (Some ''WGS 84 / Web Mercator'')"
  "\<not> is_3857 (Some ''urn:ogc:def:crs:EPSG::4326'')" "\<not> is_3857 None"
  by code_simp+

lemma is_4326_examples:
  "is_4326 (Some ''urn:ogc:def:crs:EPSG::4326'')" "is_4326 (Some ''WGS 84'')"
  "\<not> is_4326 (Some ''EPSG:25832'')" "\<not> is_4326 None"
  by code_simp+

theorem C3_prefer_matrix_set_witness:
  "is_3857 (ms_crs ([\<lparr>ms_id = ''EPSG4326'', ms_crs = Some ''urn:ogc:def:crs:EPSG::4326''\<rparr>,
                     \<lparr>ms_id = ''GoogleMapsCompatible'', ms_crs = Some ''EPSG:3857''\<rparr>] ! 1))
   \<and> \<not> is_3857 (ms_crs ([\<lparr>ms_id = ''EPSG4326'', ms_crs = Some ''urn:ogc:def:crs:EPSG::4326''\<rparr>,
                     \<lparr>ms_id = ''GoogleMapsCompatible'', ms_crs = Some ''EPSG:3857''\<rparr>] ! 0))
   \<and> prefer_matrix_set [\<lparr>ms_id = ''EPSG4326'', ms_crs = Some ''urn:ogc:def:crs:EPSG::4326''\<rparr>,
                     \<lparr>ms_id = ''GoogleMapsCompatible'', ms_crs = Some ''EPSG:3857''\<rparr>]
       = Some ''GoogleMapsCompatible''"
proof -
  let ?sets = "[\<lparr>ms_id = ''EPSG4326'', ms_crs = Some ''urn:ogc:def:crs:EPSG::4326''\<rparr>,
                \<lparr>ms_id = ''GoogleMapsCompatible'', ms_crs = Some ''EPSG:3857''\<rparr>]"
  have a: "is_3857 (ms_crs (?sets ! 1))" using is_3857_examples(1) by simp
  have b: "\<not> is_3857 (ms_crs (?sets ! 0))" using is_3857_examples(4) by simp
  have "\<forall>i<length ?sets. is_3857 (ms_crs (?sets ! i)) \<and> (\<forall>j<i. \<not> is_3857 (ms_crs (?sets ! j)))
         \<longrightarrow> prefer_matrix_set ?sets = Some (ms_id (?sets ! i))"
    using C3_prefer_matrix_set [of ?sets] by blast
  then have "is_3857 (ms_crs (?sets ! 1)) \<and> (\<forall>j<1. \<not> is_3857 (ms_crs (?sets ! j)))
         \<longrightarrow> prefer_matrix_set ?sets = Some (ms_id (?sets ! 1))"
    by (metis One_nat_def length_Cons lessI list.size(3) less_Suc_eq)
  with a b have "prefer_matrix_set ?sets = Some (ms_id (?sets ! 1))" by simp
  with a b show ?thesis by simp
qed

section \<open>Properties of the ArcGIS REST helpers\<close>

lemma find_first_index:
  "i < length xs \<Longrightarrow> P (xs ! i) \<Longrightarrow> (\<forall>j<i. \<not> P (xs ! j)) \<Longrightarrow> find P xs = Some (xs ! i)"
  by (auto simp: find_Some_iff)

lemma find_no_match: "(\<forall>x\<in>set xs. \<not> P x) \<Longrightarrow> find P xs = None"
  by (simp add: find_None_iff)

lemma first_available_find: "first_available prefs available = find (\<lambda>p. p \<in> set available) prefs"
  by (induction prefs) auto

text \<open>
  C6. For a requested format in ASCII, \<^verbatim>\<open>_prefer_arcgis_format\<close> returns the requested
  format (trimmed and lower-cased, as the code compares it) when it is among the
  advertised tokens; otherwise the first of
  \<^verbatim>\<open>png32\<close>, \<^verbatim>\<open>png24\<close>, \<^verbatim>\<open>png8\<close>, \<^verbatim>\<open>png\<close>, \<^verbatim>\<open>jpg\<close>, \<^verbatim>\<open>jpeg\<close> that is advertised;
  otherwise the first advertised token; otherwise the literal \<^verbatim>\<open>png32\<close>. For the
  advertised formats \<^verbatim>\<open>PNG32, PNG24, JPG\<close> and no requested format the result is
  \<^verbatim>\<open>png32\<close>.
\<close>

theorem C6_prefer_arcgis_format:
  assumes "isascii (or_empty requested)"
  shows
  "(\<forall>r. requested_token requested = Some r \<and> r \<in> set available
        \<longrightarrow> prefer_arcgis_format requested available = r)
   \<and> ((\<forall>r. requested_token requested = Some r \<longrightarrow> r \<notin> set available) \<longrightarrow>
        (\<forall>i<length arcgis_prefs.
            arcgis_prefs ! i \<in> set available \<and> (\<forall>j<i. arcgis_prefs ! j \<notin> set available)
            \<longrightarrow> prefer_arcgis_format requested available = arcgis_prefs ! i)
        \<and> ((\<forall>p\<in>set arcgis_prefs. p \<notin> set available) \<longrightarrow>
             (\<forall>a rest. available = a # rest \<longrightarrow> prefer_arcgis_format requested available = a)
             \<and> (available = [] \<longrightarrow> prefer_arcgis_format requested available = ''png32'')))
   \<and> arcgis_prefs = [''png32'', ''png24'', ''png8'', ''png'', ''jpg'', ''jpeg'']
   \<and> prefer_arcgis_format None (parse_supported_formats (Some ''PNG32, PNG24, JPG'')) = ''png32''"
proof (intro conjI allI impI)
  fix r
  assume "requested_token requested = Some r \<and> r \<in> set available"
  then show "prefer_arcgis_format requested available = r"
    by (simp add: prefer_arcgis_format_def)
next
  fix i
  assume miss: "\<forall>r. requested_token requested = Some r \<longrightarrow> r \<notin> set available"
    and i: "i < length arcgis_prefs"
    and first: "arcgis_prefs ! i \<in> set available \<and> (\<forall>j<i. arcgis_prefs ! j \<notin> set available)"
  from i first have "first_available arcgis_prefs available = Some (arcgis_prefs ! i)"
    unfolding first_available_find by (intro find_first_index) auto
  with miss show "prefer_arcgis_format requested available = arcgis_prefs ! i"
    by (auto simp: prefer_arcgis_format_def split: option.splits)
next
  fix a rest
  assume miss: "\<forall>r. requested_token requested = Some r \<longrightarrow> r \<notin> set available"
    and none: "\<forall>p\<in>set arcgis_prefs. p \<notin> set available"
    and eq: "available = a # rest"
  from none have "first_available arcgis_prefs available = None"
    unfolding first_available_find by (intro find_no_match) auto
  with miss eq show "prefer_arcgis_format requested available = a"
    by (auto simp: prefer_arcgis_format_def split: option.splits)
next
  assume miss: "\<forall>r. requested_token requested = Some r \<longrightarrow> r \<notin> set available"
    and eq: "available = []"
  then show "prefer_arcgis_format requested available = ''png32''"
    by (auto simp: prefer_arcgis_format_def arcgis_prefs_def split: option.splits)
next
  show "arcgis_prefs = [''png32'', ''png24'', ''png8'', ''png'', ''jpg'', ''jpeg'']"
    by (simp add: arcgis_prefs_def)
next
  show "prefer_arcgis_format None (parse_supported_formats (Some ''PNG32, PNG24, JPG'')) = ''png32''"
    by code_simp
qed

theorem C6_prefer_arcgis_format_witness:
  "requested_token (Some '' JPG '') = Some ''jpg''
   \<and> ''jpg'' \<in> set (parse_supported_formats (Some ''PNG32, PNG24, JPG''))
   \<and> prefer_arcgis_format (Some '' JPG '') (parse_supported_formats (Some ''PNG32, PNG24, JPG'')) = ''jpg''"
proof -
  have a: "requested_token (Some '' JPG '') = Some ''jpg''" by code_simp
  have b: "''jpg'' \<in> set (parse_supported_formats (Some ''PNG32, PNG24, JPG''))" by code_simp
  have asc: "isascii (or_empty (Some '' JPG ''))" by code_simp
  from a b C6_prefer_arcgis_format [OF asc, of "parse_supported_formats (Some ''PNG32, PNG24, JPG'')"]
  have "prefer_arcgis_format (Some '' JPG '') (parse_supported_formats (Some ''PNG32, PNG24, JPG'')) = ''jpg''"
    by blast
  with a b show ?thesis by simp
qed










section \<open>Properties of the WMS capabilities parser\<close>
























lemma walk_children_code [code]:
  "walk_children [] combined_crs = []"
  "walk_children (c # cs) combined_crs = walk_layers c combined_crs @ walk_children cs combined_crs"
  by (simp_all add: walk_children_def)

lemma walk_layers_code [code]:
  "walk_layers elem inherited_crs =
     (let combined_crs = inherited_crs @ own_crs elem
      in layer_entry elem combined_crs
         @ walk_children (findall_any (children elem) ''Layer'') combined_crs)"
  by (subst walk_layers.simps) (simp add: walk_children_def)


section \<open>Properties of the query encoding\<close>















lemma unquote_escape:
  "hex_pair h1 h2 = Some b \<Longrightarrow> unquote (CHR ''%'' # h1 # h2 # t) = b # unquote t"
  by simp









lemma set_join: "set (join sep xs) \<subseteq> set sep \<union> (\<Union>x\<in>set xs. set x)"
  by (induction sep xs rule: join.induct) auto




section \<open>Properties of the dictionaries\<close>


















section \<open>Splitting what was unsplit\<close>











subsection \<open>The scheme\<close>







subsection \<open>The authority\<close>





lemma lead_slash_id: "p = [] \<or> hd p = CHR ''/'' \<Longrightarrow> lead_slash p = p"
  by (auto simp: lead_slash_def)


subsection \<open>Fragment and query\<close>


subsection \<open>\<open>urlsplit\<close> after \<open>urlunsplit\<close>\<close>














subsection \<open>What \<open>urlsplit\<close> returns is well formed\<close>













subsection \<open>The service base\<close>















section \<open>Loading the WMS layer list\<close>










section \<open>Adding a WMTS layer\<close>







end
